theory Spec2Isabelle
  imports Complex_Main
begin

section \<open>Numbers, exceptions and 4x4 arrays\<close>

text \<open>
  The module \<^verbatim>\<open>psychopy/tools/viewtools.py\<close> computes with Python floats and with NumPy
  \<^verbatim>\<open>float32\<close> arrays. The embedding uses exact real arithmetic on finite values: rounding,
  overflow and underflow are not modelled, except in the section on rounded arithmetic,
  which embeds two of the functions with the rounding of every operation. \<open>NonFin\<close> is the result of a NumPy division
  by zero (\<^verbatim>\<open>inf\<close>, \<^verbatim>\<open>-inf\<close> or \<^verbatim>\<open>nan\<close>, without saying which) and of every operation
  that receives such a result: the embedding does not follow values past the first one
  that is not finite. A value that is not finite is never equal to zero, so the control
  flow of the code (which divisions raise) is followed exactly.
\<close>

datatype flt = Fin real | NonFin

datatype exn = ZeroDivisionError | ValueError | TypeError

fun fadd :: "flt \<Rightarrow> flt \<Rightarrow> flt" where
  "fadd (Fin x) (Fin y) = Fin (x + y)"
| "fadd _ _ = NonFin"

fun fsub :: "flt \<Rightarrow> flt \<Rightarrow> flt" where
  "fsub (Fin x) (Fin y) = Fin (x - y)"
| "fsub _ _ = NonFin"

fun fmul :: "flt \<Rightarrow> flt \<Rightarrow> flt" where
  "fmul (Fin x) (Fin y) = Fin (x * y)"
| "fmul _ _ = NonFin"

fun fneg :: "flt \<Rightarrow> flt" where
  "fneg (Fin x) = Fin (- x)"
| "fneg NonFin = NonFin"

text \<open>
  NumPy's division does not raise: a zero divisor gives \<^verbatim>\<open>inf\<close> or \<^verbatim>\<open>nan\<close> (and a
  warning).
\<close>

fun np_div :: "flt \<Rightarrow> flt \<Rightarrow> flt" where
  "np_div (Fin x) (Fin y) = (if y = 0 then NonFin else Fin (x / y))"
| "np_div _ _ = NonFin"

text \<open>
  Python's \<^verbatim>\<open>/\<close> on two Python floats raises \<^verbatim>\<open>ZeroDivisionError\<close> when the divisor is
  zero, whatever the dividend.
\<close>

fun py_div :: "flt \<Rightarrow> flt \<Rightarrow> exn + flt" where
  "py_div a (Fin y) = (if y = 0 then Inl ZeroDivisionError else Inr (np_div a (Fin y)))"
| "py_div a NonFin = Inr NonFin"

text \<open>Sequencing of statements that may raise: the first exception ends the call.\<close>

fun bnd :: "exn + 'a \<Rightarrow> ('a \<Rightarrow> exn + 'b) \<Rightarrow> exn + 'b" where
  "bnd (Inl e) k = Inl e"
| "bnd (Inr x) k = k x"

type_synonym matrix = "flt list list"

text \<open>\<^verbatim>\<open>np.zeros((4, 4), np.float32)\<close> and the item assignment \<^verbatim>\<open>m[i, j] = v\<close>.\<close>

definition zeros44 :: matrix where
  "zeros44 = [[Fin 0, Fin 0, Fin 0, Fin 0], [Fin 0, Fin 0, Fin 0, Fin 0],
              [Fin 0, Fin 0, Fin 0, Fin 0], [Fin 0, Fin 0, Fin 0, Fin 0]]"

definition setitem :: "matrix \<Rightarrow> nat \<Rightarrow> nat \<Rightarrow> flt \<Rightarrow> matrix" where
  "setitem m i j v = m[i := (m ! i)[j := v]]"

section \<open>computeFrustum\<close>

record Frustum =
  left :: flt
  right :: flt
  bottom :: flt
  top_f :: flt
  nearVal :: flt
  farVal :: flt

definition computeFrustum ::
  "flt \<Rightarrow> flt \<Rightarrow> flt \<Rightarrow> flt \<Rightarrow> flt \<Rightarrow> flt \<Rightarrow> flt \<Rightarrow> exn + Frustum" where
  "computeFrustum scrWidth scrAspect scrDist convergeOffset eyeOffset nearClip farClip =
     (let d = fmul scrWidth (fadd convergeOffset scrDist) in
      bnd (py_div nearClip (fadd convergeOffset scrDist)) (\<lambda>ratio.
      let r = fmul (fsub d eyeOffset) ratio;
          l = fmul (fadd d eyeOffset) (fneg ratio) in
      bnd (py_div scrWidth scrAspect) (\<lambda>q.
      let t = fmul q nearClip;
          b = fneg t in
      Inr \<lparr>left = l, right = r, bottom = b, top_f = t,
           nearVal = nearClip, farVal = farClip\<rparr>)))"

section \<open>orthoProjectionMatrix and perspectiveProjectionMatrix\<close>

definition orthoProjectionMatrix ::
  "flt \<Rightarrow> flt \<Rightarrow> flt \<Rightarrow> flt \<Rightarrow> flt \<Rightarrow> flt \<Rightarrow> exn + matrix" where
  "orthoProjectionMatrix l r b t n f =
     bnd (py_div (Fin 2) (fsub r l)) (\<lambda>e00.
     bnd (py_div (Fin 2) (fsub t b)) (\<lambda>e11.
     bnd (py_div (Fin (- 2)) (fsub f n)) (\<lambda>e22.
     bnd (py_div (fadd r l) (fsub r l)) (\<lambda>e30.
     bnd (py_div (fadd t b) (fsub t b)) (\<lambda>e31.
     bnd (py_div (fadd f n) (fsub f n)) (\<lambda>e32.
     Inr (setitem (setitem (setitem (setitem (setitem (setitem (setitem zeros44
            0 0 e00) 1 1 e11) 2 2 e22) 3 0 e30) 3 1 e31) 3 2 e32) 3 3 (Fin 1))))))))"

definition perspectiveProjectionMatrix ::
  "flt \<Rightarrow> flt \<Rightarrow> flt \<Rightarrow> flt \<Rightarrow> flt \<Rightarrow> flt \<Rightarrow> exn + matrix" where
  "perspectiveProjectionMatrix l r b t n f =
     bnd (py_div (fmul (Fin 2) n) (fsub r l)) (\<lambda>e00.
     bnd (py_div (fmul (Fin 2) n) (fsub t b)) (\<lambda>e11.
     bnd (py_div (fadd r l) (fsub r l)) (\<lambda>e20.
     bnd (py_div (fadd t b) (fsub t b)) (\<lambda>e21.
     bnd (py_div (fneg (fadd f n)) (fsub f n)) (\<lambda>e22.
     bnd (py_div (fneg (fmul (fmul (Fin 2) f) n)) (fsub f n)) (\<lambda>e32.
     Inr (setitem (setitem (setitem (setitem (setitem (setitem (setitem zeros44
            0 0 e00) 1 1 e11) 2 0 e20) 2 1 e21) 2 2 e22) 2 3 (Fin (- 1))) 3 2 e32)))))))"

section \<open>NumPy arrays of dimension 0 and 1\<close>

text \<open>
  A vector argument is a number or a flat sequence of numbers. \<^verbatim>\<open>np.asarray(x, np.float32)\<close>
  turns a number into an array of dimension 0 and a sequence of \<open>k\<close> numbers into an array
  of shape \<open>(k,)\<close>; it checks no length.
\<close>

datatype pyarg = PyNum real | PySeq "real list"

datatype ndarray = Arr0 flt | Arr1 "flt list"

fun asarray :: "pyarg \<Rightarrow> ndarray" where
  "asarray (PyNum x) = Arr0 (Fin x)"
| "asarray (PySeq xs) = Arr1 (map Fin xs)"

fun ravel :: "ndarray \<Rightarrow> flt list" where
  "ravel (Arr0 x) = [x]"
| "ravel (Arr1 xs) = xs"

fun amap :: "(flt \<Rightarrow> flt) \<Rightarrow> ndarray \<Rightarrow> ndarray" where
  "amap g (Arr0 x) = Arr0 (g x)"
| "amap g (Arr1 xs) = Arr1 (map g xs)"

text \<open>
  An elementwise binary operation with broadcasting: shapes \<open>()\<close> and \<open>(1,)\<close> stretch to
  the other operand's shape, equal shapes pair up, anything else raises \<^verbatim>\<open>ValueError\<close>.
\<close>

fun broadcast2 :: "(flt \<Rightarrow> flt \<Rightarrow> flt) \<Rightarrow> ndarray \<Rightarrow> ndarray \<Rightarrow> exn + ndarray" where
  "broadcast2 g (Arr0 a) (Arr0 b) = Inr (Arr0 (g a b))"
| "broadcast2 g (Arr0 a) (Arr1 ys) = Inr (Arr1 (map (g a) ys))"
| "broadcast2 g (Arr1 xs) (Arr0 b) = Inr (Arr1 (map (\<lambda>x. g x b) xs))"
| "broadcast2 g (Arr1 xs) (Arr1 ys) =
     (if length xs = length ys then Inr (Arr1 (map2 g xs ys))
      else if length xs = 1 then Inr (Arr1 (map (g (hd xs)) ys))
      else if length ys = 1 then Inr (Arr1 (map (\<lambda>x. g x (hd ys)) xs))
      else Inl ValueError)"

definition fsum :: "flt list \<Rightarrow> flt" where
  "fsum xs = foldr fadd xs (Fin 0)"

fun fsqrt :: "flt \<Rightarrow> flt" where
  "fsqrt (Fin x) = Fin (sqrt x)"
| "fsqrt NonFin = NonFin"

text \<open>\<^verbatim>\<open>np.linalg.norm(x)\<close>: the square root of the sum of the squares of all elements.\<close>

definition np_norm :: "ndarray \<Rightarrow> flt" where
  "np_norm a = fsqrt (fsum (map (\<lambda>x. fmul x x) (ravel a)))"

text \<open>\<^verbatim>\<open>a /= n\<close> and \<^verbatim>\<open>a / n\<close> with a NumPy scalar \<open>n\<close>.\<close>

definition div_scalar :: "ndarray \<Rightarrow> flt \<Rightarrow> ndarray" where
  "div_scalar a n = amap (\<lambda>x. np_div x n) a"

text \<open>
  \<^verbatim>\<open>np.cross(a, b)\<close>: both operands need a last axis of length 2 or 3 (a missing third
  component counts as zero; two vectors of length 2 give an array of dimension 0);
  other shapes, and operands of dimension 0, raise \<^verbatim>\<open>ValueError\<close>.
\<close>

fun np_cross :: "ndarray \<Rightarrow> ndarray \<Rightarrow> exn + ndarray" where
  "np_cross (Arr1 [a0, a1, a2]) (Arr1 [b0, b1, b2]) =
     Inr (Arr1 [fsub (fmul a1 b2) (fmul a2 b1),
                fsub (fmul a2 b0) (fmul a0 b2),
                fsub (fmul a0 b1) (fmul a1 b0)])"
| "np_cross (Arr1 [a0, a1]) (Arr1 [b0, b1, b2]) =
     Inr (Arr1 [fmul a1 b2, fneg (fmul a0 b2), fsub (fmul a0 b1) (fmul a1 b0)])"
| "np_cross (Arr1 [a0, a1, a2]) (Arr1 [b0, b1]) =
     Inr (Arr1 [fneg (fmul a2 b1), fmul a2 b0, fsub (fmul a0 b1) (fmul a1 b0)])"
| "np_cross (Arr1 [a0, a1]) (Arr1 [b0, b1]) =
     Inr (Arr0 (fsub (fmul a0 b1) (fmul a1 b0)))"
| "np_cross _ _ = Inl ValueError"

text \<open>
  \<^verbatim>\<open>np.dot(a, b)\<close>: a product by a scalar when an operand has dimension 0, the inner
  product of two vectors of one length, \<^verbatim>\<open>ValueError\<close> for two vectors of different
  lengths.
\<close>

fun np_dot :: "ndarray \<Rightarrow> ndarray \<Rightarrow> exn + ndarray" where
  "np_dot (Arr0 a) (Arr0 b) = Inr (Arr0 (fmul a b))"
| "np_dot (Arr0 a) (Arr1 ys) = Inr (Arr1 (map (fmul a) ys))"
| "np_dot (Arr1 xs) (Arr0 b) = Inr (Arr1 (map (\<lambda>x. fmul x b) xs))"
| "np_dot (Arr1 xs) (Arr1 ys) =
     (if length xs = length ys then Inr (Arr0 (fsum (map2 fmul xs ys)))
      else Inl ValueError)"

text \<open>\<^verbatim>\<open>float(a)\<close>: only an array with a single element converts.\<close>

fun py_float :: "ndarray \<Rightarrow> exn + flt" where
  "py_float (Arr0 x) = Inr x"
| "py_float (Arr1 [x]) = Inr x"
| "py_float (Arr1 _) = Inl TypeError"

text \<open>
  The value of a slice assignment into three cells, \<^verbatim>\<open>m[:3, j] = a\<close> or
  \<^verbatim>\<open>m[3, :3] = a\<close>: shapes \<open>()\<close>, \<open>(1,)\<close> and \<open>(3,)\<close> fit, others raise \<^verbatim>\<open>ValueError\<close>.
\<close>

fun to_shape3 :: "ndarray \<Rightarrow> exn + flt list" where
  "to_shape3 (Arr0 x) = Inr [x, x, x]"
| "to_shape3 (Arr1 [x]) = Inr [x, x, x]"
| "to_shape3 (Arr1 [x, y, z]) = Inr [x, y, z]"
| "to_shape3 (Arr1 _) = Inl ValueError"

definition set_col3 :: "matrix \<Rightarrow> nat \<Rightarrow> ndarray \<Rightarrow> exn + matrix" where
  "set_col3 m j a =
     bnd (to_shape3 a) (\<lambda>v.
       Inr (setitem (setitem (setitem m 0 j (v ! 0)) 1 j (v ! 1)) 2 j (v ! 2)))"

definition set_row3 :: "matrix \<Rightarrow> nat \<Rightarrow> ndarray \<Rightarrow> exn + matrix" where
  "set_row3 m i a =
     bnd (to_shape3 a) (\<lambda>v.
       Inr (setitem (setitem (setitem m i 0 (v ! 0)) i 1 (v ! 1)) i 2 (v ! 2)))"

text \<open>\<^verbatim>\<open>np.zeros((4, 4))\<close> after \<^verbatim>\<open>np.fill_diagonal(transMat, 1.0)\<close>.\<close>

definition eye44 :: matrix where
  "eye44 = [[Fin 1, Fin 0, Fin 0, Fin 0], [Fin 0, Fin 1, Fin 0, Fin 0],
            [Fin 0, Fin 0, Fin 1, Fin 0], [Fin 0, Fin 0, Fin 0, Fin 1]]"

text \<open>\<^verbatim>\<open>np.matmul(a, b)\<close> of two 4x4 arrays.\<close>

definition column :: "matrix \<Rightarrow> nat \<Rightarrow> flt list" where
  "column m j = map (\<lambda>row. row ! j) m"

definition matmul :: "matrix \<Rightarrow> matrix \<Rightarrow> matrix" where
  "matmul a b = map (\<lambda>row. map (\<lambda>j. fsum (map2 fmul row (column b j))) [0, 1, 2, 3]) a"

section \<open>lookAt\<close>

definition lookAt :: "pyarg \<Rightarrow> pyarg \<Rightarrow> pyarg \<Rightarrow> exn + matrix" where
  "lookAt eyePos0 centerPos0 upVec0 =
     (let eyePos = asarray eyePos0;
          centerPos = asarray centerPos0;
          upVec = asarray upVec0 in
      bnd (broadcast2 fsub centerPos eyePos) (\<lambda>f0.
      let f = div_scalar f0 (np_norm f0);
          upVec = div_scalar upVec (np_norm upVec) in
      bnd (np_cross f upVec) (\<lambda>s.
      bnd (np_cross (div_scalar s (np_norm s)) f) (\<lambda>u.
      bnd (set_col3 zeros44 0 s) (\<lambda>rotMat.
      bnd (set_col3 rotMat 1 u) (\<lambda>rotMat.
      bnd (set_col3 rotMat 2 (amap fneg f)) (\<lambda>rotMat.
      let rotMat = setitem rotMat 3 3 (Fin 1) in
      bnd (set_row3 eye44 3 (amap fneg eyePos)) (\<lambda>transMat.
      Inr (matmul transMat rotMat)))))))))"

section \<open>generalPerspectiveProjection\<close>

text \<open>
  The first part of the function, up to the four frustum bounds that it passes to
  \<open>perspectiveProjectionMatrix\<close>; the basis vectors and the eye position are returned
  with them for the second part.
\<close>

record gpp_locals =
  g_vr :: ndarray
  g_vu :: ndarray
  g_vn :: ndarray
  g_eye :: ndarray
  g_left :: flt
  g_right :: flt
  g_bottom :: flt
  g_top :: flt

definition gpp_bound :: "ndarray \<Rightarrow> ndarray \<Rightarrow> ndarray \<Rightarrow> exn + flt" where
  "gpp_bound v w nearOverDist =
     bnd (np_dot v w) (\<lambda>p. bnd (broadcast2 fmul p nearOverDist) py_float)"

definition gpp_frustum :: "pyarg \<Rightarrow> pyarg \<Rightarrow> pyarg \<Rightarrow> pyarg \<Rightarrow> flt \<Rightarrow> exn + gpp_locals" where
  "gpp_frustum posBottomLeft0 posBottomRight0 posTopLeft0 eyePos0 nearClip =
     (let posBottomLeft = asarray posBottomLeft0;
          posBottomRight = asarray posBottomRight0;
          posTopLeft = asarray posTopLeft0;
          eyePos = asarray eyePos0 in
      bnd (broadcast2 fsub posBottomRight posBottomLeft) (\<lambda>vr0.
      let vr = div_scalar vr0 (np_norm vr0) in
      bnd (broadcast2 fsub posTopLeft posBottomLeft) (\<lambda>vu0.
      let vu = div_scalar vu0 (np_norm vu0) in
      bnd (np_cross vr vu) (\<lambda>vn0.
      let vn = div_scalar vn0 (np_norm vn0) in
      bnd (broadcast2 fsub posBottomLeft eyePos) (\<lambda>va.
      bnd (broadcast2 fsub posBottomRight eyePos) (\<lambda>vb.
      bnd (broadcast2 fsub posTopLeft eyePos) (\<lambda>vc.
      bnd (np_dot va vn) (\<lambda>dot_va_vn.
      let dist = amap fneg dot_va_vn in
      bnd (broadcast2 np_div (Arr0 nearClip) dist) (\<lambda>nearOverDist.
      bnd (gpp_bound vr va nearOverDist) (\<lambda>l.
      bnd (gpp_bound vr vb nearOverDist) (\<lambda>r.
      bnd (gpp_bound vu va nearOverDist) (\<lambda>b.
      bnd (gpp_bound vu vc nearOverDist) (\<lambda>t.
      Inr \<lparr>g_vr = vr, g_vu = vu, g_vn = vn, g_eye = eyePos,
           g_left = l, g_right = r, g_bottom = b, g_top = t\<rparr>)))))))))))))"

definition generalPerspectiveProjection ::
  "pyarg \<Rightarrow> pyarg \<Rightarrow> pyarg \<Rightarrow> pyarg \<Rightarrow> flt \<Rightarrow> flt \<Rightarrow> exn + matrix \<times> matrix" where
  "generalPerspectiveProjection posBottomLeft posBottomRight posTopLeft eyePos nearClip farClip =
     bnd (gpp_frustum posBottomLeft posBottomRight posTopLeft eyePos nearClip) (\<lambda>g.
     bnd (perspectiveProjectionMatrix (g_left g) (g_right g) (g_bottom g) (g_top g)
            nearClip farClip) (\<lambda>projMat.
     bnd (set_col3 zeros44 0 (g_vr g)) (\<lambda>rotMat.
     bnd (set_col3 rotMat 1 (g_vu g)) (\<lambda>rotMat.
     bnd (set_col3 rotMat 2 (g_vn g)) (\<lambda>rotMat.
     let rotMat = setitem rotMat 3 3 (Fin 1) in
     bnd (set_row3 eye44 3 (amap fneg (g_eye g))) (\<lambda>transMat.
     Inr (projMat, matmul transMat rotMat)))))))"

section \<open>Applying a matrix to a point\<close>

text \<open>
  The module builds matrices for a consumer that multiplies a row vector \<open>(x, y, z, w)\<close>
  from the left and, for a perspective projection, divides the result by its last
  component. These two operations are not in the module; they are what the statements
  below apply to the matrices it returns.
\<close>

definition row_vec_mul :: "flt list \<Rightarrow> matrix \<Rightarrow> flt list" where
  "row_vec_mul v m = map (\<lambda>j. fsum (map2 fmul v (column m j))) [0, 1, 2, 3]"


definition transform :: "exn + matrix \<Rightarrow> flt list \<Rightarrow> exn + flt list" where
  "transform pm v = bnd pm (\<lambda>m. Inr (row_vec_mul v m))"


section \<open>Reading a view matrix\<close>

text \<open>
  A view matrix is applied to row vectors, so its upper-left 3x3 block is the rotation
  and the first three entries of its last row are the translation. A rotation is
  orthonormal when its three columns have length one and are perpendicular to each
  other.
\<close>

definition rot_block :: "matrix \<Rightarrow> matrix" where
  "rot_block m = map (take 3) (take 3 m)"

definition translation :: "matrix \<Rightarrow> flt list" where
  "translation m = take 3 (m ! 3)"

definition col_dot :: "matrix \<Rightarrow> nat \<Rightarrow> nat \<Rightarrow> flt" where
  "col_dot m i j = fsum (map2 fmul (column m i) (column m j))"

definition orthonormal3 :: "matrix \<Rightarrow> bool" where
  "orthonormal3 m \<longleftrightarrow>
     col_dot m 0 0 = Fin 1 \<and> col_dot m 1 1 = Fin 1 \<and> col_dot m 2 2 = Fin 1 \<and>
     col_dot m 0 1 = Fin 0 \<and> col_dot m 0 2 = Fin 0 \<and> col_dot m 1 2 = Fin 0"

section \<open>Shapes of arguments and arrays\<close>

text \<open>
  The shape of an argument: \<open>None\<close> for a number, the length for a sequence. A shape
  fits a 3-vector when broadcasting stretches it to length 3; the difference of two
  arrays is a 3-vector when both shapes fit and one of them has length 3.
\<close>

fun arg_shape :: "pyarg \<Rightarrow> nat option" where
  "arg_shape (PyNum x) = None"
| "arg_shape (PySeq xs) = Some (length xs)"

fun shape :: "ndarray \<Rightarrow> nat option" where
  "shape (Arr0 x) = None"
| "shape (Arr1 xs) = Some (length xs)"

definition fits3 :: "nat option \<Rightarrow> bool" where
  "fits3 s \<longleftrightarrow> s = None \<or> s = Some 1 \<or> s = Some 3"

definition diff3 :: "nat option \<Rightarrow> nat option \<Rightarrow> bool" where
  "diff3 s1 s2 \<longleftrightarrow> fits3 s1 \<and> fits3 s2 \<and> (s1 = Some 3 \<or> s2 = Some 3)"

definition lookAt_shapes_ok :: "pyarg \<Rightarrow> pyarg \<Rightarrow> pyarg \<Rightarrow> bool" where
  "lookAt_shapes_ok eyePos centerPos upVec \<longleftrightarrow>
     diff3 (arg_shape centerPos) (arg_shape eyePos) \<and>
     (arg_shape upVec = Some 2 \<or> arg_shape upVec = Some 3)"

definition gpp_shapes_ok :: "pyarg \<Rightarrow> pyarg \<Rightarrow> pyarg \<Rightarrow> pyarg \<Rightarrow> bool" where
  "gpp_shapes_ok posBottomLeft posBottomRight posTopLeft eyePos \<longleftrightarrow>
     diff3 (arg_shape posBottomRight) (arg_shape posBottomLeft) \<and>
     diff3 (arg_shape posTopLeft) (arg_shape posBottomLeft) \<and>
     diff3 (arg_shape posBottomLeft) (arg_shape eyePos) \<and>
     diff3 (arg_shape posBottomRight) (arg_shape eyePos) \<and>
     diff3 (arg_shape posTopLeft) (arg_shape eyePos)"

section \<open>Rounded arithmetic\<close>






text \<open>
  \<open>computeFrustum\<close> and \<open>perspectiveProjectionMatrix\<close> once more, now with the rounding
  \<open>rd\<close> applied to the result of each operation on Python floats and the rounding \<open>rs\<close>
  applied by each store into the \<^verbatim>\<open>float32\<close> matrix. The roundings are parameters: with
  \<open>rnd64\<close> and \<open>rnd32\<close> these are the functions as they run, with \<open>Fin\<close> for both (no
  rounding) they are the definitions above. \<open>exact_on rd xs\<close> says that \<open>rd\<close> leaves the
  numbers \<open>xs\<close> unchanged.
\<close>

fun rop :: "(real \<Rightarrow> flt) \<Rightarrow> (real \<Rightarrow> real \<Rightarrow> real) \<Rightarrow> flt \<Rightarrow> flt \<Rightarrow> flt" where
  "rop rd g (Fin x) (Fin y) = rd (g x y)"
| "rop rd g _ _ = NonFin"

fun rdiv :: "(real \<Rightarrow> flt) \<Rightarrow> flt \<Rightarrow> flt \<Rightarrow> exn + flt" where
  "rdiv rd a (Fin y) =
     (if y = 0 then Inl ZeroDivisionError else Inr (rop rd (\<lambda>u v. u / v) a (Fin y)))"
| "rdiv rd a NonFin = Inr NonFin"

fun store :: "(real \<Rightarrow> flt) \<Rightarrow> flt \<Rightarrow> flt" where
  "store rs (Fin x) = rs x"
| "store rs NonFin = NonFin"


definition computeFrustum_rnd ::
  "(real \<Rightarrow> flt) \<Rightarrow> flt \<Rightarrow> flt \<Rightarrow> flt \<Rightarrow> flt \<Rightarrow> flt \<Rightarrow> flt \<Rightarrow> flt \<Rightarrow> exn + Frustum" where
  "computeFrustum_rnd rd scrWidth scrAspect scrDist convergeOffset eyeOffset nearClip farClip =
     (let d = rop rd (\<lambda>u v. u * v) scrWidth (rop rd (\<lambda>u v. u + v) convergeOffset scrDist) in
      bnd (rdiv rd nearClip (rop rd (\<lambda>u v. u + v) convergeOffset scrDist)) (\<lambda>ratio.
      let r = rop rd (\<lambda>u v. u * v) (rop rd (\<lambda>u v. u - v) d eyeOffset) ratio;
          l = rop rd (\<lambda>u v. u * v) (rop rd (\<lambda>u v. u + v) d eyeOffset) (fneg ratio) in
      bnd (rdiv rd scrWidth scrAspect) (\<lambda>q.
      let t = rop rd (\<lambda>u v. u * v) q nearClip;
          b = fneg t in
      Inr \<lparr>left = l, right = r, bottom = b, top_f = t,
           nearVal = nearClip, farVal = farClip\<rparr>)))"

definition perspectiveProjectionMatrix_rnd ::
  "(real \<Rightarrow> flt) \<Rightarrow> (real \<Rightarrow> flt) \<Rightarrow> flt \<Rightarrow> flt \<Rightarrow> flt \<Rightarrow> flt \<Rightarrow> flt \<Rightarrow> flt \<Rightarrow> exn + matrix" where
  "perspectiveProjectionMatrix_rnd rd rs l r b t n f =
     bnd (rdiv rd (rop rd (\<lambda>u v. u * v) (Fin 2) n) (rop rd (\<lambda>u v. u - v) r l)) (\<lambda>e00.
     bnd (rdiv rd (rop rd (\<lambda>u v. u * v) (Fin 2) n) (rop rd (\<lambda>u v. u - v) t b)) (\<lambda>e11.
     bnd (rdiv rd (rop rd (\<lambda>u v. u + v) r l) (rop rd (\<lambda>u v. u - v) r l)) (\<lambda>e20.
     bnd (rdiv rd (rop rd (\<lambda>u v. u + v) t b) (rop rd (\<lambda>u v. u - v) t b)) (\<lambda>e21.
     bnd (rdiv rd (fneg (rop rd (\<lambda>u v. u + v) f n)) (rop rd (\<lambda>u v. u - v) f n)) (\<lambda>e22.
     bnd (rdiv rd (fneg (rop rd (\<lambda>u v. u * v) (rop rd (\<lambda>u v. u * v) (Fin 2) f) n))
            (rop rd (\<lambda>u v. u - v) f n)) (\<lambda>e32.
     Inr (setitem (setitem (setitem (setitem (setitem (setitem (setitem zeros44
            0 0 (store rs e00)) 1 1 (store rs e11)) 2 0 (store rs e20)) 2 1 (store rs e21))
            2 2 (store rs e22)) 2 3 (store rs (Fin (- 1)))) 3 2 (store rs e32))))))))"

section \<open>The projection matrices\<close>

lemmas mat_defs = setitem_def zeros44_def row_vec_mul_def column_def fsum_def

lemma persp_value:
  assumes "r \<noteq> l" "t \<noteq> b" "f \<noteq> n"
  shows "perspectiveProjectionMatrix (Fin l) (Fin r) (Fin b) (Fin t) (Fin n) (Fin f) =
    Inr [[Fin (2 * n / (r - l)), Fin 0, Fin 0, Fin 0],
         [Fin 0, Fin (2 * n / (t - b)), Fin 0, Fin 0],
         [Fin ((r + l) / (r - l)), Fin ((t + b) / (t - b)), Fin (- (f + n) / (f - n)), Fin (- 1)],
         [Fin 0, Fin 0, Fin (- (2 * f * n) / (f - n)), Fin 0]]"
  using assms by (simp add: perspectiveProjectionMatrix_def setitem_def zeros44_def)

lemma ortho_value:
  assumes "r \<noteq> l" "t \<noteq> b" "f \<noteq> n"
  shows "orthoProjectionMatrix (Fin l) (Fin r) (Fin b) (Fin t) (Fin n) (Fin f) =
    Inr [[Fin (2 / (r - l)), Fin 0, Fin 0, Fin 0],
         [Fin 0, Fin (2 / (t - b)), Fin 0, Fin 0],
         [Fin 0, Fin 0, Fin (- 2 / (f - n)), Fin 0],
         [Fin ((r + l) / (r - l)), Fin ((t + b) / (t - b)), Fin ((f + n) / (f - n)), Fin 1]]"
  using assms by (simp add: orthoProjectionMatrix_def setitem_def zeros44_def)




text \<open>
  C2 (the code departs from it): \<open>orthoProjectionMatrix\<close> stores the translation terms
  \<open>(r + l) / (r - l)\<close>, \<open>(t + b) / (t - b)\<close> and \<open>(f + n) / (f - n)\<close> without the minus sign of
  the parallel projection, so a frustum that is not symmetric is shifted the wrong way.
  For \<open>l = b = 0\<close>, \<open>r = t = 2\<close>, \<open>n = 1\<close>, \<open>f = 10\<close> the corner \<open>(l, b, -n)\<close> goes to
  \<open>x = y = 1\<close>, not to \<open>(-1, -1)\<close>.
\<close>

theorem ortho_corner_asymmetric:
  "transform (orthoProjectionMatrix (Fin 0) (Fin 2) (Fin 0) (Fin 2) (Fin 1) (Fin 10))
     [Fin 0, Fin 0, Fin (- 1), Fin 1] = Inr [Fin 1, Fin 1, Fin (13 / 9), Fin 1]"
  by (simp add: transform_def orthoProjectionMatrix_def mat_defs)

text \<open>
  C6 (as stated it fails): with Python floats and \<open>near = far\<close> the divisor \<open>far - near\<close> is
  the float zero and Python's division raises. At \<open>(-1, 1, -1, 1, 1, 1)\<close> both builders
  raise \<^verbatim>\<open>ZeroDivisionError\<close> and return no matrix.
\<close>

theorem near_equals_far_example:
  "orthoProjectionMatrix (Fin (- 1)) (Fin 1) (Fin (- 1)) (Fin 1) (Fin 1) (Fin 1)
     = Inl ZeroDivisionError
   \<and> perspectiveProjectionMatrix (Fin (- 1)) (Fin 1) (Fin (- 1)) (Fin 1) (Fin 1) (Fin 1)
     = Inl ZeroDivisionError"
  by (simp add: orthoProjectionMatrix_def perspectiveProjectionMatrix_def)

text \<open>
  C6 (amended): called with finite Python floats and \<open>near = far\<close>, \<open>orthoProjectionMatrix\<close>
  and \<open>perspectiveProjectionMatrix\<close> each raise \<^verbatim>\<open>ZeroDivisionError\<close>; no matrix is returned.
\<close>

theorem coincident_planes_raise:
  "orthoProjectionMatrix (Fin l) (Fin r) (Fin b) (Fin t) (Fin n) (Fin n) = Inl ZeroDivisionError
   \<and> perspectiveProjectionMatrix (Fin l) (Fin r) (Fin b) (Fin t) (Fin n) (Fin n)
     = Inl ZeroDivisionError"
  by (simp add: orthoProjectionMatrix_def perspectiveProjectionMatrix_def)

text \<open>
  C7: for \<open>r \<noteq> l\<close>, \<open>t \<noteq> b\<close>, \<open>f \<noteq> n\<close> both builders return a matrix; element \<open>[2][3]\<close> of the
  perspective matrix is \<open>-1\<close>; element \<open>[2][3]\<close> of the orthographic matrix is \<open>0\<close> and its
  element \<open>[3][3]\<close> is \<open>1\<close>.
\<close>

theorem divide_elements:
  assumes "r \<noteq> l" "t \<noteq> b" "f \<noteq> n"
  shows "\<exists>P Q. perspectiveProjectionMatrix (Fin l) (Fin r) (Fin b) (Fin t) (Fin n) (Fin f) = Inr P
      \<and> P ! 2 ! 3 = Fin (- 1)
      \<and> orthoProjectionMatrix (Fin l) (Fin r) (Fin b) (Fin t) (Fin n) (Fin f) = Inr Q
      \<and> Q ! 2 ! 3 = Fin 0 \<and> Q ! 3 ! 3 = Fin 1"
  by (simp add: persp_value[OF assms] ortho_value[OF assms])

theorem divide_elements_witness:
  "(1::real) \<noteq> - 1 \<and> (10::real) \<noteq> 1 \<and>
   (\<exists>P Q. perspectiveProjectionMatrix (Fin (- 1)) (Fin 1) (Fin (- 1)) (Fin 1) (Fin 1) (Fin 10) = Inr P
      \<and> P ! 2 ! 3 = Fin (- 1)
      \<and> orthoProjectionMatrix (Fin (- 1)) (Fin 1) (Fin (- 1)) (Fin 1) (Fin 1) (Fin 10) = Inr Q
      \<and> Q ! 2 ! 3 = Fin 0 \<and> Q ! 3 ! 3 = Fin 1)"
  using divide_elements[of 1 "- 1" 1 "- 1" 10 1] by simp

section \<open>The frustum of computeFrustum\<close>

text \<open>
  C5: for \<open>convergeOffset + scrDist \<noteq> 0\<close> and \<open>scrAspect \<noteq> 0\<close>, the calls with \<open>eyeOffset = e\<close>
  and \<open>eyeOffset = -e\<close> both return, and their frustums mirror each other:
  \<open>left\<^sub>e = - right\<^sub>-\<^sub>e\<close> and \<open>right\<^sub>e = - left\<^sub>-\<^sub>e\<close>; for \<open>e = 0\<close> the frustum has
  \<open>left = - right\<close>. In exact arithmetic the equalities hold without a tolerance.
\<close>

theorem computeFrustum_mirror:
  assumes "c + D \<noteq> 0" "a \<noteq> 0"
  shows "\<exists>F G. computeFrustum (Fin w) (Fin a) (Fin D) (Fin c) (Fin e) (Fin n) (Fin f) = Inr F
      \<and> computeFrustum (Fin w) (Fin a) (Fin D) (Fin c) (Fin (- e)) (Fin n) (Fin f) = Inr G
      \<and> left F = fneg (right G) \<and> right F = fneg (left G)
      \<and> (e = 0 \<longrightarrow> left F = fneg (right F))"
  using assms by (simp add: computeFrustum_def Let_def)

theorem computeFrustum_mirror_witness:
  "(0::real) + 1 \<noteq> 0 \<and> (2::real) \<noteq> 0 \<and>
   (\<exists>F G. computeFrustum (Fin 1) (Fin 2) (Fin 1) (Fin 0) (Fin 0) (Fin 1) (Fin 100) = Inr F
      \<and> computeFrustum (Fin 1) (Fin 2) (Fin 1) (Fin 0) (Fin (- 0)) (Fin 1) (Fin 100) = Inr G
      \<and> left F = fneg (right G) \<and> right F = fneg (left G)
      \<and> ((0::real) = 0 \<longrightarrow> left F = fneg (right F)))"
  using computeFrustum_mirror[of 0 1 2 1 0 1 100] by simp

section \<open>Concrete views\<close>

lemma sqrt_25: "sqrt 25 = 5"
  using real_sqrt_abs[of 5] by simp

lemma sqrt_9_25: "sqrt (9 / 25) = 3 / 5"
  using real_sqrt_abs[of "3 / 5"] by (simp add: power2_eq_square)

lemmas vec_defs = np_norm_def fsum_def div_scalar_def set_col3_def set_row3_def
  setitem_def zeros44_def eye44_def matmul_def column_def

text \<open>
  C8: \<open>lookAt(eyePos=(0,0,5), centerPos=(0,0,0), upVec=(0,1,0))\<close> returns the matrix
  whose rotation block is the identity and whose translation is \<open>(0, 0, -5)\<close>.
\<close>

theorem lookAt_aligned:
  "lookAt (PySeq [0, 0, 5]) (PySeq [0, 0, 0]) (PySeq [0, 1, 0]) =
     Inr [[Fin 1, Fin 0, Fin 0, Fin 0], [Fin 0, Fin 1, Fin 0, Fin 0],
          [Fin 0, Fin 0, Fin 1, Fin 0], [Fin 0, Fin 0, Fin (- 5), Fin 1]]
   \<and> rot_block [[Fin 1, Fin 0, Fin 0, Fin 0], [Fin 0, Fin 1, Fin 0, Fin 0],
          [Fin 0, Fin 0, Fin 1, Fin 0], [Fin 0, Fin 0, Fin (- 5), Fin 1]]
      = [[Fin 1, Fin 0, Fin 0], [Fin 0, Fin 1, Fin 0], [Fin 0, Fin 0, Fin 1]]
   \<and> translation [[Fin 1, Fin 0, Fin 0, Fin 0], [Fin 0, Fin 1, Fin 0, Fin 0],
          [Fin 0, Fin 0, Fin 1, Fin 0], [Fin 0, Fin 0, Fin (- 5), Fin 1]]
      = [Fin 0, Fin 0, Fin (- 5)]"
  by (simp add: lookAt_def vec_defs sqrt_25 rot_block_def translation_def)

text \<open>
  C4 (the code departs from it): \<open>lookAt\<close> normalises \<open>s = f \<times> upVec\<close> only inside the
  cross product that gives \<open>u\<close>; the column it stores is \<open>s\<close> itself, whose length is the
  sine of the angle between the view direction and \<open>upVec\<close>. For \<open>eyePos = (0,0,5)\<close>,
  \<open>centerPos = (0,0,0)\<close>, \<open>upVec = (0,3,4)\<close>, which is not parallel to the view direction, the
  first column of the rotation block is \<open>(3/5, 0, 0)\<close>: the block is not orthonormal.
\<close>

theorem lookAt_side_not_unit:
  "lookAt (PySeq [0, 0, 5]) (PySeq [0, 0, 0]) (PySeq [0, 3, 4]) =
     Inr [[Fin (3 / 5), Fin 0, Fin 0, Fin 0], [Fin 0, Fin 1, Fin 0, Fin 0],
          [Fin 0, Fin 0, Fin 1, Fin 0], [Fin 0, Fin 0, Fin (- 5), Fin 1]]
   \<and> col_dot (rot_block [[Fin (3 / 5), Fin 0, Fin 0, Fin 0], [Fin 0, Fin 1, Fin 0, Fin 0],
          [Fin 0, Fin 0, Fin 1, Fin 0], [Fin 0, Fin 0, Fin (- 5), Fin 1]]) 0 0 = Fin (9 / 25)
   \<and> \<not> orthonormal3 (rot_block [[Fin (3 / 5), Fin 0, Fin 0, Fin 0], [Fin 0, Fin 1, Fin 0, Fin 0],
          [Fin 0, Fin 0, Fin 1, Fin 0], [Fin 0, Fin 0, Fin (- 5), Fin 1]])"
  by (simp add: lookAt_def vec_defs sqrt_25 sqrt_9_25 rot_block_def orthonormal3_def col_dot_def)

text \<open>
  C3 (the code departs from it): a screen of width 2 and height 2, one metre in front of
  the eye, centred on and perpendicular to the view axis, near plane at 0.01.
  \<open>generalPerspectiveProjection\<close> derives the symmetric bounds \<open>\<plusminus> 0.01\<close>, half the width
  times \<open>nearClip / dist\<close>; \<open>computeFrustum\<close> for the same geometry returns \<open>\<plusminus> 0.02\<close>, the
  whole width times \<open>nearClip\<close>, whatever the distance.
\<close>

theorem frustum_paths_disagree:
  "gpp_frustum (PySeq [- 1, - 1, - 1]) (PySeq [1, - 1, - 1]) (PySeq [- 1, 1, - 1])
       (PySeq [0, 0, 0]) (Fin (1 / 100)) =
     Inr \<lparr>g_vr = Arr1 [Fin 1, Fin 0, Fin 0], g_vu = Arr1 [Fin 0, Fin 1, Fin 0],
          g_vn = Arr1 [Fin 0, Fin 0, Fin 1], g_eye = Arr1 [Fin 0, Fin 0, Fin 0],
          g_left = Fin (- (1 / 100)), g_right = Fin (1 / 100),
          g_bottom = Fin (- (1 / 100)), g_top = Fin (1 / 100)\<rparr>
   \<and> computeFrustum (Fin 2) (Fin 1) (Fin 1) (Fin 0) (Fin 0) (Fin (1 / 100)) (Fin 100) =
     Inr \<lparr>left = Fin (- (1 / 50)), right = Fin (1 / 50), bottom = Fin (- (1 / 50)),
          top_f = Fin (1 / 50), nearVal = Fin (1 / 100), farVal = Fin 100\<rparr>"
  by (simp add: gpp_frustum_def gpp_bound_def vec_defs computeFrustum_def)

section \<open>Arguments of other shapes\<close>

lemma bnd_Inr_iff: "bnd m k = Inr z \<longleftrightarrow> (\<exists>y. m = Inr y \<and> k y = Inr z)"
  by (cases m) auto

lemma bnd_Inl_iff: "bnd m k = Inl x \<longleftrightarrow> m = Inl x \<or> (\<exists>y. m = Inr y \<and> k y = Inl x)"
  by (cases m) auto

lemma shape_asarray [simp]: "shape (asarray a) = arg_shape a"
  by (cases a) auto

lemma shape_amap [simp]: "shape (amap g a) = shape a"
  by (cases a) auto

lemma shape_div_scalar [simp]: "shape (div_scalar a n) = shape a"
  by (simp add: div_scalar_def)

lemma shape_None: "shape a = None \<Longrightarrow> \<exists>x. a = Arr0 x"
  by (cases a) auto

lemma shape_1: "shape a = Some 1 \<Longrightarrow> \<exists>x. a = Arr1 [x]"
  by (cases a) (auto simp: length_Suc_conv)

lemma shape_2: "shape a = Some 2 \<Longrightarrow> \<exists>x y. a = Arr1 [x, y]"
  by (cases a) (auto simp: length_Suc_conv numeral_2_eq_2)

lemma shape_3: "shape a = Some 3 \<Longrightarrow> \<exists>x y z. a = Arr1 [x, y, z]"
  by (cases a) (auto simp: length_Suc_conv numeral_3_eq_3)

lemma broadcast2_Inl: "broadcast2 g a b = Inl x \<Longrightarrow> x = ValueError"
  by (cases a; cases b) (auto split: if_splits)

lemma broadcast2_to3:
  "broadcast2 g a b = Inr c \<Longrightarrow> shape c = Some 3 \<longleftrightarrow> diff3 (shape a) (shape b)"
  by (cases a; cases b) (auto simp: diff3_def fits3_def split: if_splits)

lemma broadcast2_ex3:
  "diff3 (shape a) (shape b) \<Longrightarrow> \<exists>c. broadcast2 g a b = Inr c \<and> shape c = Some 3"
  by (cases a; cases b) (auto simp: diff3_def fits3_def split: if_splits)

lemma diff3_fits: "diff3 s1 s2 \<Longrightarrow> fits3 s1 \<and> fits3 s2"
  by (simp add: diff3_def)

lemma np_cross_Inl: "np_cross a b = Inl x \<Longrightarrow> x = ValueError"
  by (erule np_cross.elims) auto

lemma np_cross_shape:
  "np_cross a b = Inr c \<Longrightarrow>
     (shape a = Some 2 \<or> shape a = Some 3) \<and> (shape b = Some 2 \<or> shape b = Some 3) \<and>
     (if shape a = Some 2 \<and> shape b = Some 2 then shape c = None else shape c = Some 3)"
  by (erule np_cross.elims) auto

lemma np_dot_Inl: "np_dot a b = Inl x \<Longrightarrow> x = ValueError"
  by (cases a; cases b) (auto split: if_splits)

lemma py_float_Inl: "py_float a = Inl x \<Longrightarrow> x = TypeError"
  by (erule py_float.elims) auto

lemma py_float_shape: "py_float a = Inr x \<Longrightarrow> shape a = None \<or> shape a = Some 1"
  by (erule py_float.elims) auto

lemma to_shape3_Inl: "to_shape3 a = Inl x \<Longrightarrow> x = ValueError"
  by (erule to_shape3.elims) auto

lemma to_shape3_shape:
  "to_shape3 a = Inr v \<Longrightarrow> shape a = None \<or> shape a = Some 1 \<or> shape a = Some 3"
  by (erule to_shape3.elims) auto

lemma to_shape3_ex:
  assumes "shape a = None \<or> shape a = Some 1 \<or> shape a = Some 3"
  shows "\<exists>v. to_shape3 a = Inr v"
proof -
  from assms consider x where "a = Arr0 x" | x where "a = Arr1 [x]"
    | x y z where "a = Arr1 [x, y, z]"
    using shape_None shape_1 shape_3 by blast
  then show ?thesis by cases simp_all
qed

lemma set_col3_Inl: "set_col3 m j a = Inl x \<Longrightarrow> x = ValueError"
  by (auto simp: set_col3_def bnd_Inl_iff dest: to_shape3_Inl)

lemma set_row3_Inl: "set_row3 m j a = Inl x \<Longrightarrow> x = ValueError"
  by (auto simp: set_row3_def bnd_Inl_iff dest: to_shape3_Inl)

lemma set_col3_shape: "set_col3 m j a = Inr m' \<Longrightarrow> fits3 (shape a)"
  by (auto simp: set_col3_def bnd_Inr_iff fits3_def dest: to_shape3_shape)

lemma set_row3_shape: "set_row3 m j a = Inr m' \<Longrightarrow> fits3 (shape a)"
  by (auto simp: set_row3_def bnd_Inr_iff fits3_def dest: to_shape3_shape)

lemma set_col3_ex:
  "fits3 (shape a) \<Longrightarrow> \<exists>m'. set_col3 m j a = Inr m'"
  using to_shape3_ex[of a] by (auto simp: set_col3_def fits3_def)

lemma set_row3_ex:
  "fits3 (shape a) \<Longrightarrow> \<exists>m'. set_row3 m j a = Inr m'"
  using to_shape3_ex[of a] by (auto simp: set_row3_def fits3_def)

lemma lookAt_Inl: "lookAt e c u = Inl x \<Longrightarrow> x = ValueError"
  by (auto simp: lookAt_def Let_def bnd_Inl_iff
      dest: broadcast2_Inl np_cross_Inl set_col3_Inl set_row3_Inl)

lemma broadcast2_Arr0_shape: "broadcast2 g (Arr0 n) a = Inr c \<Longrightarrow> shape c = shape a"
  by (cases a) auto

lemma gpp_bound_Inl: "gpp_bound v w nod = Inl x \<Longrightarrow> x = ValueError \<or> x = TypeError"
  by (auto simp: gpp_bound_def bnd_Inl_iff dest: np_dot_Inl broadcast2_Inl py_float_Inl)

lemma gpp_bound_first:
  assumes "np_dot w vn = Inr d"
    and "broadcast2 np_div (Arr0 n) (amap fneg d) = Inr nod"
    and "gpp_bound v w nod = Inr x"
    and "shape v = Some 2 \<or> shape v = Some 3"
    and "shape vn = None \<or> shape vn = Some 3"
  shows "shape w = Some 3 \<and> shape v = Some 3 \<and> shape vn = Some 3 \<and> shape nod = None"
proof -
  from assms(2) have nod: "shape nod = shape d"
    using broadcast2_Arr0_shape by fastforce
  from assms(3) obtain p q where p: "np_dot v w = Inr p"
    and q: "broadcast2 fmul p nod = Inr q" and f: "py_float q = Inr x"
    unfolding gpp_bound_def bnd_Inr_iff by blast
  from py_float_shape[OF f] have sq: "shape q = None \<or> shape q = Some 1" .
  show ?thesis
    using assms(1,4,5) nod p q sq
    by (cases w; cases vn; cases v; cases d; cases nod; cases p; cases q)
       (auto split: if_splits)
qed

lemma gpp_bound_w3:
  assumes "gpp_bound v w nod = Inr x" and "shape v = Some 3" and "shape nod = None"
  shows "shape w = Some 3"
proof -
  from assms(1) obtain p q where p: "np_dot v w = Inr p"
    and q: "broadcast2 fmul p nod = Inr q" and f: "py_float q = Inr x"
    unfolding gpp_bound_def bnd_Inr_iff by blast
  from py_float_shape[OF f] have sq: "shape q = None \<or> shape q = Some 1" .
  show ?thesis
    using assms(2,3) p q sq
    by (cases w; cases v; cases nod; cases p; cases q) (auto split: if_splits)
qed

lemma gpp_bound_v3:
  assumes "gpp_bound v w nod = Inr x" and "shape w = Some 3"
    and "shape v = Some 2 \<or> shape v = Some 3"
  shows "shape v = Some 3"
proof -
  from assms(1) obtain p where p: "np_dot v w = Inr p"
    unfolding gpp_bound_def bnd_Inr_iff by blast
  show ?thesis
    using assms(2,3) p by (cases w; cases v) (auto split: if_splits)
qed

lemma np_dot_ex3:
  "shape a = Some 3 \<Longrightarrow> shape b = Some 3 \<Longrightarrow> \<exists>d. np_dot a b = Inr (Arr0 d)"
  by (cases a; cases b) auto

lemma gpp_bound_ex:
  assumes "shape v = Some 3" and "shape w = Some 3"
  shows "\<exists>x. gpp_bound v w (Arr0 nod) = Inr x"
proof -
  from np_dot_ex3[OF assms] obtain d where "np_dot v w = Inr (Arr0 d)" by blast
  then show ?thesis by (simp add: gpp_bound_def)
qed

lemma gpp_frustum_steps:
  assumes "gpp_frustum bl br tleft eye n = Inr g"
  shows "\<exists>vr0 vu0 vn0 va vb vc d nod l r b t.
    broadcast2 fsub (asarray br) (asarray bl) = Inr vr0 \<and>
    broadcast2 fsub (asarray tleft) (asarray bl) = Inr vu0 \<and>
    np_cross (div_scalar vr0 (np_norm vr0)) (div_scalar vu0 (np_norm vu0)) = Inr vn0 \<and>
    broadcast2 fsub (asarray bl) (asarray eye) = Inr va \<and>
    broadcast2 fsub (asarray br) (asarray eye) = Inr vb \<and>
    broadcast2 fsub (asarray tleft) (asarray eye) = Inr vc \<and>
    np_dot va (div_scalar vn0 (np_norm vn0)) = Inr d \<and>
    broadcast2 np_div (Arr0 n) (amap fneg d) = Inr nod \<and>
    gpp_bound (div_scalar vr0 (np_norm vr0)) va nod = Inr l \<and>
    gpp_bound (div_scalar vr0 (np_norm vr0)) vb nod = Inr r \<and>
    gpp_bound (div_scalar vu0 (np_norm vu0)) va nod = Inr b \<and>
    gpp_bound (div_scalar vu0 (np_norm vu0)) vc nod = Inr t \<and>
    g = \<lparr>g_vr = div_scalar vr0 (np_norm vr0), g_vu = div_scalar vu0 (np_norm vu0),
         g_vn = div_scalar vn0 (np_norm vn0), g_eye = asarray eye,
         g_left = l, g_right = r, g_bottom = b, g_top = t\<rparr>"
  using assms
  apply (simp only: gpp_frustum_def Let_def bnd_Inr_iff)
  apply (elim exE conjE)
  apply (intro exI conjI)
  apply (assumption | simp)+
  done

lemma gpp_frustum_Inr:
  assumes "gpp_frustum bl br tleft eye n = Inr g"
  shows "gpp_shapes_ok bl br tleft eye \<and> shape (g_vr g) = Some 3 \<and> shape (g_vu g) = Some 3
     \<and> shape (g_vn g) = Some 3 \<and> g_eye g = asarray eye"
proof -
  from gpp_frustum_steps[OF assms] obtain vr0 vu0 vn0 va vb vc d nod l r b t where
    vr0: "broadcast2 fsub (asarray br) (asarray bl) = Inr vr0" and
    vu0: "broadcast2 fsub (asarray tleft) (asarray bl) = Inr vu0" and
    vn0: "np_cross (div_scalar vr0 (np_norm vr0)) (div_scalar vu0 (np_norm vu0)) = Inr vn0" and
    va: "broadcast2 fsub (asarray bl) (asarray eye) = Inr va" and
    vb: "broadcast2 fsub (asarray br) (asarray eye) = Inr vb" and
    vc: "broadcast2 fsub (asarray tleft) (asarray eye) = Inr vc" and
    d: "np_dot va (div_scalar vn0 (np_norm vn0)) = Inr d" and
    nod: "broadcast2 np_div (Arr0 n) (amap fneg d) = Inr nod" and
    l: "gpp_bound (div_scalar vr0 (np_norm vr0)) va nod = Inr l" and
    r: "gpp_bound (div_scalar vr0 (np_norm vr0)) vb nod = Inr r" and
    b: "gpp_bound (div_scalar vu0 (np_norm vu0)) va nod = Inr b" and
    t: "gpp_bound (div_scalar vu0 (np_norm vu0)) vc nod = Inr t" and
    g: "g = \<lparr>g_vr = div_scalar vr0 (np_norm vr0), g_vu = div_scalar vu0 (np_norm vu0),
         g_vn = div_scalar vn0 (np_norm vn0), g_eye = asarray eye,
         g_left = l, g_right = r, g_bottom = b, g_top = t\<rparr>"
    by (elim exE conjE)
  let ?vr = "div_scalar vr0 (np_norm vr0)"
  let ?vu = "div_scalar vu0 (np_norm vu0)"
  let ?vn = "div_scalar vn0 (np_norm vn0)"
  from np_cross_shape[OF vn0] have sr: "shape ?vr = Some 2 \<or> shape ?vr = Some 3"
    and su: "shape ?vu = Some 2 \<or> shape ?vu = Some 3"
    and sn: "shape ?vn = None \<or> shape ?vn = Some 3"
    by (simp_all split: if_splits)
  from gpp_bound_first[OF d nod l sr sn]
  have a3: "shape va = Some 3" and r3: "shape ?vr = Some 3" and n3: "shape ?vn = Some 3"
    and nod0: "shape nod = None" by simp_all
  from gpp_bound_w3[OF r r3 nod0] have b3: "shape vb = Some 3" .
  from gpp_bound_v3[OF b a3 su] have u3: "shape ?vu = Some 3" .
  from gpp_bound_w3[OF t u3 nod0] have c3: "shape vc = Some 3" .
  from broadcast2_to3[OF vr0] r3 have 1: "diff3 (arg_shape br) (arg_shape bl)" by simp
  from broadcast2_to3[OF vu0] u3 have 2: "diff3 (arg_shape tleft) (arg_shape bl)" by simp
  from broadcast2_to3[OF va] a3 have 3: "diff3 (arg_shape bl) (arg_shape eye)" by simp
  from broadcast2_to3[OF vb] b3 have 4: "diff3 (arg_shape br) (arg_shape eye)" by simp
  from broadcast2_to3[OF vc] c3 have 5: "diff3 (arg_shape tleft) (arg_shape eye)" by simp
  from 1 2 3 4 5 have "gpp_shapes_ok bl br tleft eye" by (simp add: gpp_shapes_ok_def)
  with r3 u3 n3 show ?thesis by (simp add: g)
qed

lemma gpp_frustum_ex:
  assumes "gpp_shapes_ok bl br tleft eye"
  shows "\<exists>g. gpp_frustum bl br tleft eye n = Inr g"
proof -
  from assms have 1: "diff3 (shape (asarray br)) (shape (asarray bl))"
    and 2: "diff3 (shape (asarray tleft)) (shape (asarray bl))"
    and 3: "diff3 (shape (asarray bl)) (shape (asarray eye))"
    and 4: "diff3 (shape (asarray br)) (shape (asarray eye))"
    and 5: "diff3 (shape (asarray tleft)) (shape (asarray eye))"
    by (simp_all add: gpp_shapes_ok_def)
  from broadcast2_ex3[OF 1] obtain vr0 where
    vr0: "broadcast2 fsub (asarray br) (asarray bl) = Inr vr0" and r3: "shape vr0 = Some 3" by blast
  from broadcast2_ex3[OF 2] obtain vu0 where
    vu0: "broadcast2 fsub (asarray tleft) (asarray bl) = Inr vu0" and u3: "shape vu0 = Some 3" by blast
  from broadcast2_ex3[OF 3] obtain va where
    va: "broadcast2 fsub (asarray bl) (asarray eye) = Inr va" and a3: "shape va = Some 3" by blast
  from broadcast2_ex3[OF 4] obtain vb where
    vb: "broadcast2 fsub (asarray br) (asarray eye) = Inr vb" and b3: "shape vb = Some 3" by blast
  from broadcast2_ex3[OF 5] obtain vc where
    vc: "broadcast2 fsub (asarray tleft) (asarray eye) = Inr vc" and c3: "shape vc = Some 3" by blast
  let ?vr = "div_scalar vr0 (np_norm vr0)"
  let ?vu = "div_scalar vu0 (np_norm vu0)"
  have sr: "shape ?vr = Some 3" and su: "shape ?vu = Some 3" using r3 u3 by simp_all
  from sr obtain r1 r2 r3 where vr: "?vr = Arr1 [r1, r2, r3]" using shape_3 by blast
  from su obtain u1 u2 u3 where vu: "?vu = Arr1 [u1, u2, u3]" using shape_3 by blast
  have "\<exists>n1 n2 n3. np_cross ?vr ?vu = Inr (Arr1 [n1, n2, n3])" unfolding vr vu by simp
  then obtain n1 n2 n3 where vn0: "np_cross ?vr ?vu = Inr (Arr1 [n1, n2, n3])" by blast
  let ?vn0 = "Arr1 [n1, n2, n3]"
  let ?vn = "div_scalar ?vn0 (np_norm ?vn0)"
  have sn: "shape ?vn = Some 3" by simp
  from np_dot_ex3[OF a3 sn] obtain d where d: "np_dot va ?vn = Inr (Arr0 d)" by blast
  let ?nod = "Arr0 (np_div n (fneg d))"
  from gpp_bound_ex[OF sr a3] obtain l where l: "gpp_bound ?vr va ?nod = Inr l" by blast
  from gpp_bound_ex[OF sr b3] obtain r where r: "gpp_bound ?vr vb ?nod = Inr r" by blast
  from gpp_bound_ex[OF su a3] obtain b where b: "gpp_bound ?vu va ?nod = Inr b" by blast
  from gpp_bound_ex[OF su c3] obtain t where t: "gpp_bound ?vu vc ?nod = Inr t" by blast
  show ?thesis
    unfolding gpp_frustum_def Let_def vr0 vu0 bnd.simps vn0 va vb vc d
    by (simp add: l r b t)
qed

lemma gpp_frustum_Inl:
  "gpp_frustum bl br tleft eye n = Inl x \<Longrightarrow> x = ValueError \<or> x = TypeError"
  apply (simp only: gpp_frustum_def Let_def bnd_Inl_iff)
  apply (elim disjE exE conjE)
  apply (auto dest: broadcast2_Inl np_cross_Inl np_dot_Inl gpp_bound_Inl)
  done

lemma lookAt_Inr_steps:
  assumes "lookAt e c u = Inr M"
  shows "\<exists>f0 s u2 r1 r2 r3 t.
    broadcast2 fsub (asarray c) (asarray e) = Inr f0 \<and>
    np_cross (div_scalar f0 (np_norm f0)) (div_scalar (asarray u) (np_norm (asarray u))) = Inr s \<and>
    np_cross (div_scalar s (np_norm s)) (div_scalar f0 (np_norm f0)) = Inr u2 \<and>
    set_col3 zeros44 0 s = Inr r1 \<and>
    set_col3 r1 1 u2 = Inr r2 \<and>
    set_col3 r2 2 (amap fneg (div_scalar f0 (np_norm f0))) = Inr r3 \<and>
    set_row3 eye44 3 (amap fneg (asarray e)) = Inr t"
  using assms
  apply (simp only: lookAt_def Let_def bnd_Inr_iff)
  apply (elim exE conjE)
  apply (intro exI conjI)
  apply assumption+
  done

lemma lookAt_Inr:
  assumes "lookAt e c u = Inr M"
  shows "lookAt_shapes_ok e c u"
proof -
  from lookAt_Inr_steps[OF assms] obtain f0 s r2 r3 t where
    f0: "broadcast2 fsub (asarray c) (asarray e) = Inr f0" and
    s: "np_cross (div_scalar f0 (np_norm f0)) (div_scalar (asarray u) (np_norm (asarray u))) = Inr s" and
    r3: "set_col3 (r2::matrix) 2 (amap fneg (div_scalar f0 (np_norm f0))) = Inr r3" and
    t: "set_row3 eye44 3 (amap fneg (asarray e)) = Inr t"
    by (elim exE conjE)
  from np_cross_shape[OF s] have su: "arg_shape u = Some 2 \<or> arg_shape u = Some 3"
    and sf: "shape f0 = Some 2 \<or> shape f0 = Some 3" by simp_all
  from set_col3_shape[OF r3] have "fits3 (shape f0)" by simp
  with sf have f3: "shape f0 = Some 3" by (auto simp: fits3_def)
  from broadcast2_to3[OF f0] f3 have "diff3 (arg_shape c) (arg_shape e)" by simp
  with su show ?thesis by (simp add: lookAt_shapes_ok_def)
qed

lemma lookAt_ex:
  assumes "lookAt_shapes_ok e c u"
  shows "\<exists>M. lookAt e c u = Inr M"
proof -
  from assms have d: "diff3 (arg_shape c) (arg_shape e)"
    and su: "arg_shape u = Some 2 \<or> arg_shape u = Some 3"
    by (simp_all add: lookAt_shapes_ok_def)
  from broadcast2_ex3[of "asarray c" "asarray e" fsub] d
  obtain f0 where f0: "broadcast2 fsub (asarray c) (asarray e) = Inr f0"
    and f3: "shape f0 = Some 3" by auto
  let ?f = "div_scalar f0 (np_norm f0)"
  let ?u = "div_scalar (asarray u) (np_norm (asarray u))"
  from f3 have "shape ?f = Some 3" by simp
  then obtain f1 f2 f3 where f: "?f = Arr1 [f1, f2, f3]" using shape_3 by blast
  from su have "shape ?u = Some 2 \<or> shape ?u = Some 3" by simp
  then consider x y where "?u = Arr1 [x, y]" | x y z where "?u = Arr1 [x, y, z]"
    using shape_2 shape_3 by blast
  then have "\<exists>s1 s2 s3. np_cross ?f ?u = Inr (Arr1 [s1, s2, s3])"
    unfolding f by cases simp_all
  then obtain s1 s2 s3 where s: "np_cross ?f ?u = Inr (Arr1 [s1, s2, s3])" by blast
  let ?s = "Arr1 [s1, s2, s3]"
  have "shape (div_scalar ?s (np_norm ?s)) = Some 3" by simp
  then obtain a1 a2 a3 where sn: "div_scalar ?s (np_norm ?s) = Arr1 [a1, a2, a3]"
    using shape_3 by blast
  have "\<exists>v1 v2 v3. np_cross (div_scalar ?s (np_norm ?s)) ?f = Inr (Arr1 [v1, v2, v3])"
    unfolding sn f by simp
  then obtain v1 v2 v3 where
    u2: "np_cross (div_scalar ?s (np_norm ?s)) ?f = Inr (Arr1 [v1, v2, v3])" by blast
  from diff3_fits[OF d] have "fits3 (shape (amap fneg (asarray e)))" by simp
  then obtain t where t: "set_row3 eye44 3 (amap fneg (asarray e)) = Inr t"
    using set_row3_ex by blast
  show ?thesis
    unfolding lookAt_def Let_def f0 bnd.simps s u2
    by (simp add: f set_col3_def t)
qed

lemma py_div_Inl: "py_div a b = Inl x \<Longrightarrow> x = ZeroDivisionError"
  by (cases b) (auto split: if_splits)

lemma perspective_Inl:
  "perspectiveProjectionMatrix l r b t n f = Inl x \<Longrightarrow> x = ZeroDivisionError"
  apply (simp only: perspectiveProjectionMatrix_def bnd_Inl_iff)
  apply (elim disjE exE conjE)
  apply (auto dest: py_div_Inl)
  done

lemma gpp_returns:
  assumes "gpp_shapes_ok bl br tleft eye"
  shows "(\<exists>R. generalPerspectiveProjection bl br tleft eye n f = Inr R)
       \<or> generalPerspectiveProjection bl br tleft eye n f = Inl ZeroDivisionError"
proof -
  from gpp_frustum_ex[OF assms] obtain g where g: "gpp_frustum bl br tleft eye n = Inr g"
    by blast
  from gpp_frustum_Inr[OF g] have r3: "shape (g_vr g) = Some 3" and u3: "shape (g_vu g) = Some 3"
    and n3: "shape (g_vn g) = Some 3" and e: "g_eye g = asarray eye" by simp_all
  from assms have fe: "fits3 (arg_shape eye)"
    by (simp add: gpp_shapes_ok_def diff3_def)
  show ?thesis
  proof (cases "perspectiveProjectionMatrix (g_left g) (g_right g) (g_bottom g) (g_top g) n f")
    case (Inl x)
    with perspective_Inl[OF Inl] show ?thesis
      by (simp add: generalPerspectiveProjection_def g)
  next
    case (Inr P)
    from r3 obtain m1 where m1: "set_col3 zeros44 0 (g_vr g) = Inr m1"
      using set_col3_ex[of "g_vr g"] by (auto simp: fits3_def)
    from u3 obtain m2 where m2: "set_col3 m1 1 (g_vu g) = Inr m2"
      using set_col3_ex[of "g_vu g"] by (auto simp: fits3_def)
    from n3 obtain m3 where m3: "set_col3 m2 2 (g_vn g) = Inr m3"
      using set_col3_ex[of "g_vn g"] by (auto simp: fits3_def)
    from fe obtain tm where tm: "set_row3 eye44 3 (amap fneg (g_eye g)) = Inr tm"
      using set_row3_ex[of "amap fneg (g_eye g)"] by (auto simp: e)
    show ?thesis
      unfolding generalPerspectiveProjection_def g bnd.simps Inr m1 m2 m3 Let_def tm
      by simp
  qed
qed

lemma gpp_raises:
  assumes "\<not> gpp_shapes_ok bl br tleft eye"
  shows "generalPerspectiveProjection bl br tleft eye n f = Inl ValueError
       \<or> generalPerspectiveProjection bl br tleft eye n f = Inl TypeError"
proof (cases "gpp_frustum bl br tleft eye n")
  case (Inl x)
  from gpp_frustum_Inl[OF Inl] show ?thesis
    by (auto simp: generalPerspectiveProjection_def Inl)
next
  case (Inr g)
  from gpp_frustum_Inr[OF Inr] assms show ?thesis by simp
qed

lemma lookAt_raises:
  assumes "\<not> lookAt_shapes_ok e c u"
  shows "lookAt e c u = Inl ValueError"
proof (cases "lookAt e c u")
  case (Inl x)
  with lookAt_Inl[OF Inl] show ?thesis by simp
next
  case (Inr M)
  from lookAt_Inr[OF Inr] assms show ?thesis by simp
qed

text \<open>
  C9 (as stated it fails): neither function checks the shape of an argument. A number
  for \<open>centerPos\<close> is broadcast, and a \<open>upVec\<close> of two components is completed with a zero
  by \<^verbatim>\<open>np.cross\<close>; both calls return a complete matrix.
\<close>

theorem lookAt_accepts_other_shapes:
  "lookAt (PySeq [0, 0, 5]) (PyNum 0) (PySeq [0, 1, 0]) =
     Inr [[Fin 1, Fin 0, Fin 0, Fin 0], [Fin 0, Fin 1, Fin 0, Fin 0],
          [Fin 0, Fin 0, Fin 1, Fin 0], [Fin 0, Fin 0, Fin (- 5), Fin 1]]
   \<and> lookAt (PySeq [0, 0, 5]) (PySeq [0, 0, 0]) (PySeq [0, 1]) =
     Inr [[Fin 1, Fin 0, Fin 0, Fin 0], [Fin 0, Fin 1, Fin 0, Fin 0],
          [Fin 0, Fin 0, Fin 1, Fin 0], [Fin 0, Fin 0, Fin (- 5), Fin 1]]"
  by (simp add: lookAt_def vec_defs sqrt_25)

text \<open>
  C9 (amended): for arguments that are numbers or flat sequences of numbers, \<open>lookAt\<close>
  returns a matrix when \<open>centerPos - eyePos\<close> broadcasts to a 3-vector and \<open>upVec\<close> has
  two or three components, and raises \<^verbatim>\<open>ValueError\<close> for every other combination of
  shapes; \<open>generalPerspectiveProjection\<close> returns its two matrices (or raises
  \<^verbatim>\<open>ZeroDivisionError\<close> from the projection matrix) when the five differences it
  forms broadcast to 3-vectors, and raises \<^verbatim>\<open>ValueError\<close> or \<^verbatim>\<open>TypeError\<close> for every
  other combination of shapes. No call returns a partial result.
\<close>

theorem shape_faults:
  "(lookAt_shapes_ok e c u \<longrightarrow> (\<exists>M. lookAt e c u = Inr M))
   \<and> (\<not> lookAt_shapes_ok e c u \<longrightarrow> lookAt e c u = Inl ValueError)
   \<and> (gpp_shapes_ok bl br tleft eye \<longrightarrow>
        (\<exists>R. generalPerspectiveProjection bl br tleft eye n f = Inr R)
        \<or> generalPerspectiveProjection bl br tleft eye n f = Inl ZeroDivisionError)
   \<and> (\<not> gpp_shapes_ok bl br tleft eye \<longrightarrow>
        generalPerspectiveProjection bl br tleft eye n f = Inl ValueError
        \<or> generalPerspectiveProjection bl br tleft eye n f = Inl TypeError)"
  using lookAt_ex lookAt_raises gpp_returns gpp_raises by blast

lemmas shape_ok_defs = lookAt_shapes_ok_def gpp_shapes_ok_def diff3_def fits3_def

theorem shape_faults_witness:
  "lookAt_shapes_ok (PySeq [0, 0, 5]) (PyNum 0) (PySeq [0, 1])
   \<and> (\<exists>M. lookAt (PySeq [0, 0, 5]) (PyNum 0) (PySeq [0, 1]) = Inr M)
   \<and> gpp_shapes_ok (PySeq [- 1, - 1, - 1]) (PySeq [1, - 1, - 1]) (PySeq [- 1, 1, - 1]) (PyNum 0)
   \<and> ((\<exists>R. generalPerspectiveProjection (PySeq [- 1, - 1, - 1]) (PySeq [1, - 1, - 1])
              (PySeq [- 1, 1, - 1]) (PyNum 0) (Fin 1) (Fin 100) = Inr R)
        \<or> generalPerspectiveProjection (PySeq [- 1, - 1, - 1]) (PySeq [1, - 1, - 1])
              (PySeq [- 1, 1, - 1]) (PyNum 0) (Fin 1) (Fin 100) = Inl ZeroDivisionError)
   \<and> \<not> lookAt_shapes_ok (PySeq [0, 0, 5, 1]) (PySeq [0, 0, 0, 1]) (PySeq [0, 1, 0, 0])
   \<and> lookAt (PySeq [0, 0, 5, 1]) (PySeq [0, 0, 0, 1]) (PySeq [0, 1, 0, 0]) = Inl ValueError
   \<and> \<not> gpp_shapes_ok (PyNum 1) (PySeq [1, - 1, - 1]) (PySeq [- 1, 1, - 1]) (PyNum 0)
   \<and> (generalPerspectiveProjection (PyNum 1) (PySeq [1, - 1, - 1])
              (PySeq [- 1, 1, - 1]) (PyNum 0) (Fin 1) (Fin 100) = Inl ValueError
        \<or> generalPerspectiveProjection (PyNum 1) (PySeq [1, - 1, - 1])
              (PySeq [- 1, 1, - 1]) (PyNum 0) (Fin 1) (Fin 100) = Inl TypeError)"
  using shape_faults[of "PySeq [0, 0, 5]" "PyNum 0" "PySeq [0, 1]"
          "PySeq [- 1, - 1, - 1]" "PySeq [1, - 1, - 1]" "PySeq [- 1, 1, - 1]" "PyNum 0" "Fin 1" "Fin 100"]
        shape_faults[of "PySeq [0, 0, 5, 1]" "PySeq [0, 0, 0, 1]" "PySeq [0, 1, 0, 0]"
          "PyNum 1" "PySeq [1, - 1, - 1]" "PySeq [- 1, 1, - 1]" "PyNum 0" "Fin 1" "Fin 100"]
  by (simp add: shape_ok_defs)

section \<open>The effect of rounding\<close>































lemma rop_Fin:
  "rop Fin (\<lambda>u v. u + v) a b = fadd a b" "rop Fin (\<lambda>u v. u - v) a b = fsub a b"
  "rop Fin (\<lambda>u v. u * v) a b = fmul a b"
  by (cases a; cases b; simp)+

lemma rdiv_Fin: "rdiv Fin a b = py_div a b"
  by (cases a; cases b) auto

lemma store_Fin: "store Fin a = a"
  by (cases a) auto

lemma computeFrustum_rnd_Fin: "computeFrustum_rnd Fin = computeFrustum"
  by (intro ext) (simp add: computeFrustum_rnd_def computeFrustum_def rop_Fin rdiv_Fin Let_def)

lemma perspective_rnd_Fin: "perspectiveProjectionMatrix_rnd Fin Fin = perspectiveProjectionMatrix"
  by (intro ext)
     (simp add: perspectiveProjectionMatrix_rnd_def perspectiveProjectionMatrix_def
        rop_Fin rdiv_Fin store_Fin)








end
